theory Spec2Isabelle
  imports Complex_Main "HOL-Library.Sublist" "HOL-Library.Multiset" "HOL-Library.Char_ord"
    "HOL-Library.List_Lexorder" "HOL-Library.Product_Lexorder"
begin

section \<open>Floats\<close>

text \<open>
  A Python float is a real number or NaN; \<open>None\<close> is NaN. (The infinities are not
  modelled: no operation of the pipeline divides by zero, see \<open>fdiv\<close>.) A comparison with
  NaN is false, \<open>==\<close> included, and arithmetic on NaN gives NaN.
\<close>

type_synonym pyfloat = "real option"

definition flt_lt :: "pyfloat \<Rightarrow> pyfloat \<Rightarrow> bool" where
  "flt_lt a b = (case a of None \<Rightarrow> False | Some x \<Rightarrow> (case b of None \<Rightarrow> False | Some y \<Rightarrow> x < y))"

definition flt_gt :: "pyfloat \<Rightarrow> pyfloat \<Rightarrow> bool" where
  "flt_gt a b = flt_lt b a"

definition flt_eq :: "pyfloat \<Rightarrow> pyfloat \<Rightarrow> bool" where
  "flt_eq a b = (case a of None \<Rightarrow> False | Some x \<Rightarrow> (case b of None \<Rightarrow> False | Some y \<Rightarrow> x = y))"

definition lift2 :: "(real \<Rightarrow> real \<Rightarrow> real) \<Rightarrow> pyfloat \<Rightarrow> pyfloat \<Rightarrow> pyfloat" where
  "lift2 f a b = (case a of None \<Rightarrow> None | Some x \<Rightarrow> (case b of None \<Rightarrow> None | Some y \<Rightarrow> Some (f x y)))"

abbreviation fadd :: "pyfloat \<Rightarrow> pyfloat \<Rightarrow> pyfloat" where
  "fadd \<equiv> lift2 (+)"

abbreviation fsub :: "pyfloat \<Rightarrow> pyfloat \<Rightarrow> pyfloat" where
  "fsub \<equiv> lift2 (-)"

abbreviation fmul :: "pyfloat \<Rightarrow> pyfloat \<Rightarrow> pyfloat" where
  "fmul \<equiv> lift2 (\<lambda>x y. x * y)"

text \<open>Division; a zero divisor would give an infinity or NaN and is given \<open>None\<close>.\<close>

definition fdiv :: "pyfloat \<Rightarrow> pyfloat \<Rightarrow> pyfloat" where
  "fdiv a b =
     (case a of
        None \<Rightarrow> None
      | Some x \<Rightarrow> (case b of None \<Rightarrow> None | Some y \<Rightarrow> if y = 0 then None else Some (x / y)))"

definition py_abs :: "pyfloat \<Rightarrow> pyfloat" where
  "py_abs a = map_option abs a"

text \<open>The builtin \<open>min(a, b)\<close> keeps \<open>a\<close> unless \<open>b < a\<close>: \<open>min(nan, 1.0)\<close> is \<open>nan\<close>.\<close>

definition py_min :: "pyfloat \<Rightarrow> pyfloat \<Rightarrow> pyfloat" where
  "py_min a b = (if flt_lt b a then b else a)"

section \<open>Signal classifier (analysis.py, config.py)\<close>

text \<open>
  The string labels of a signal's direction and strength are the constructors of two
  datatypes, and \<open>direction_label\<close> and \<open>strength_label\<close> give back the literal text the
  source stores in the result.
\<close>

datatype direction = BUY | SELL

datatype strength = WEAK | MODERATE | STRONG

fun direction_label :: "direction \<Rightarrow> string" where
  "direction_label BUY = ''BUY''"
| "direction_label SELL = ''SELL''"

fun strength_label :: "strength \<Rightarrow> string" where
  "strength_label WEAK = ''WEAK''"
| "strength_label MODERATE = ''MODERATE''"
| "strength_label STRONG = ''STRONG''"

text \<open>The severity order WEAK < MODERATE < STRONG, as a rank.\<close>

fun strength_rank :: "strength \<Rightarrow> nat" where
  "strength_rank WEAK = 0"
| "strength_rank MODERATE = 1"
| "strength_rank STRONG = 2"

definition Z_SCORE_THRESHOLD :: real where
  "Z_SCORE_THRESHOLD = 2"

definition RSI_OVERSOLD :: real where
  "RSI_OVERSOLD = 30"

definition RSI_OVERBOUGHT :: real where
  "RSI_OVERBOUGHT = 70"

record signal_info =
  direction :: direction
  strength :: strength
  precision :: pyfloat

text \<open>\<open>TradingAnalyzer._calculate_signal_precision\<close>: each \<open>precision += ...\<close> of the
  source is one rebinding of \<open>precision\<close>.\<close>

definition calculate_signal_precision :: "pyfloat \<Rightarrow> pyfloat \<Rightarrow> pyfloat \<Rightarrow> pyfloat \<Rightarrow> pyfloat" where
  "calculate_signal_precision z_score rsi macd_histogram volume_ratio =
     (let precision = Some 50;
          z_score_contribution = fmul (py_min (fdiv (py_abs z_score) (Some 3)) (Some 1)) (Some 30);
          precision = fadd precision z_score_contribution;
          precision =
            (if flt_lt rsi (Some 25) \<or> flt_gt rsi (Some 75) then fadd precision (Some 20)
             else if flt_lt rsi (Some 30) \<or> flt_gt rsi (Some 70) then fadd precision (Some 15)
             else if flt_lt rsi (Some 40) \<or> flt_gt rsi (Some 60) then fadd precision (Some 10)
             else precision);
          precision =
            (if flt_gt (py_abs macd_histogram) (Some 0.002) then fadd precision (Some 15)
             else if flt_gt (py_abs macd_histogram) (Some 0.001) then fadd precision (Some 10)
             else precision);
          precision =
            (if flt_gt volume_ratio (Some 1.5) then fadd precision (Some 15)
             else if flt_gt volume_ratio (Some 1.2) then fadd precision (Some 10)
             else precision)
      in py_min precision (Some 100))"

text \<open>The three direction rules of \<open>generate_signal\<close>, in the source's order: each later
  rule only runs while \<open>signal_direction\<close> is still \<open>None\<close>.\<close>

definition direction_rules :: "pyfloat \<Rightarrow> pyfloat \<Rightarrow> pyfloat \<Rightarrow> direction option" where
  "direction_rules z_score rsi macd_histogram =
     (let signal_direction =
            (if flt_gt z_score (Some Z_SCORE_THRESHOLD) then Some SELL
             else if flt_lt z_score (Some (- Z_SCORE_THRESHOLD)) then Some BUY
             else None);
          signal_direction =
            (if signal_direction = None then
               (if flt_gt rsi (Some RSI_OVERBOUGHT) then Some SELL
                else if flt_lt rsi (Some RSI_OVERSOLD) then Some BUY
                else signal_direction)
             else signal_direction);
          signal_direction =
            (if signal_direction = None then
               (if flt_lt macd_histogram (Some (- 0.001)) then Some SELL
                else if flt_gt macd_histogram (Some 0.001) then Some BUY
                else signal_direction)
             else signal_direction)
      in signal_direction)"

text \<open>The strength rules of \<open>generate_signal\<close> for a determined direction.\<close>

definition strength_rules :: "direction \<Rightarrow> pyfloat \<Rightarrow> pyfloat \<Rightarrow> pyfloat \<Rightarrow> strength" where
  "strength_rules signal_direction rsi macd_histogram volume_ratio =
     (let signal_strength = WEAK;
          signal_strength =
            (if flt_gt rsi (Some RSI_OVERBOUGHT) \<and> signal_direction = SELL then STRONG
             else if flt_lt rsi (Some RSI_OVERSOLD) \<and> signal_direction = BUY then STRONG
             else signal_strength);
          signal_strength =
            (if flt_gt macd_histogram (Some 0) \<and> signal_direction = BUY then STRONG
             else if flt_lt macd_histogram (Some 0) \<and> signal_direction = SELL then STRONG
             else signal_strength);
          signal_strength =
            (if flt_gt volume_ratio (Some 1.5) then
               (if signal_strength = WEAK then MODERATE
                else if signal_strength = MODERATE then STRONG
                else signal_strength)
             else signal_strength)
      in signal_strength)"

text \<open>\<open>TradingAnalyzer.generate_signal\<close>; \<open>None\<close> is Python's \<open>None\<close>. The gate
  \<open>precision < 60.0\<close> is a comparison, false for a NaN precision.\<close>

definition generate_signal :: "pyfloat \<Rightarrow> pyfloat \<Rightarrow> pyfloat \<Rightarrow> pyfloat \<Rightarrow> signal_info option" where
  "generate_signal z_score rsi macd_histogram volume_ratio =
     (case direction_rules z_score rsi macd_histogram of
        None \<Rightarrow> None
      | Some d \<Rightarrow>
          (let s = strength_rules d rsi macd_histogram volume_ratio;
               p = calculate_signal_precision z_score rsi macd_histogram volume_ratio
           in if flt_lt p (Some 60) then None
              else Some \<lparr>direction = d, strength = s, precision = p\<rparr>))"

section \<open>Series cache (monitoring.py)\<close>

text \<open>
  \<open>CacheManager\<close> holds two dictionaries and a default timeout. An instant is a number
  of microseconds, the resolution of \<open>datetime\<close>; \<open>datetime.now()\<close> is an argument of
  every operation that reads the clock.
\<close>

type_synonym datetime = int

record 'v CacheManager =
  cache :: "string \<rightharpoonup> 'v"
  timeouts :: "string \<rightharpoonup> datetime"
  default_timeout :: int

definition timedelta_seconds :: "int \<Rightarrow> int" where
  "timedelta_seconds seconds = seconds * 1000000"

text \<open>\<open>timeout or self.default_timeout\<close>: \<open>None\<close> and 0 are both falsy.\<close>

definition timeout_or_default :: "int option \<Rightarrow> int \<Rightarrow> int" where
  "timeout_or_default timeout dflt =
     (case timeout of None \<Rightarrow> dflt | Some t \<Rightarrow> if t = 0 then dflt else t)"

text \<open>\<open>CacheManager.get\<close> returns the value read and the cache after the call.\<close>

definition CacheManager_get ::
  "'v CacheManager \<Rightarrow> datetime \<Rightarrow> string \<Rightarrow> 'v option \<times> 'v CacheManager" where
  "CacheManager_get self now key =
     (case cache self key of
        None \<Rightarrow> (None, self)
      | Some v \<Rightarrow>
          (case timeouts self key of
             None \<Rightarrow> (None, self)
           | Some expiry \<Rightarrow>
               if now < expiry then (Some v, self)
               else (None, self\<lparr>cache := (cache self)(key := None),
                                  timeouts := (timeouts self)(key := None)\<rparr>)))"

definition CacheManager_set ::
  "'v CacheManager \<Rightarrow> datetime \<Rightarrow> string \<Rightarrow> 'v \<Rightarrow> int option \<Rightarrow> 'v CacheManager" where
  "CacheManager_set self now key v timeout =
     self\<lparr>cache := (cache self)(key \<mapsto> v),
          timeouts := (timeouts self)(key \<mapsto>
            now + timedelta_seconds (timeout_or_default timeout (default_timeout self)))\<rparr>"

section \<open>Data acquisition (api_client.py)\<close>

text \<open>
  The upstream answers are inputs of the model. An instrument of the instruments-info
  answer is its \<open>symbol\<close> field (absent when the key is missing); the answer itself is
  absent when the request failed, and carries \<open>retCode\<close> and the instrument list.
\<close>

record instrument =
  symbol :: "string option"

record instruments_info =
  retCode :: "int option"
  result_list :: "instrument list"

definition endswith :: "string \<Rightarrow> string \<Rightarrow> bool" where
  "endswith s e = suffix e s"

definition startswith :: "string \<Rightarrow> string list \<Rightarrow> bool" where
  "startswith s ps = (\<exists>p \<in> set ps. prefix p s)"

definition contains :: "string \<Rightarrow> string \<Rightarrow> bool" where
  "contains sub s = sublist sub s"

text \<open>The denylist test of \<open>get_all_futures_symbols\<close>.\<close>

definition denylisted :: "string \<Rightarrow> bool" where
  "denylisted s =
     (startswith s [''1000'', ''10000'', ''100000'', ''1000000''] \<or>
      startswith s [''TEST'', ''DEMO'', ''MOCK''] \<or>
      contains ''TEST'' s \<or> contains ''DEMO'' s)"

text \<open>The loop over the instrument list, appending to \<open>symbols\<close>; \<open>if symbol and ...\<close>
  is false for a missing and for an empty symbol.\<close>

fun collect_symbols :: "instrument list \<Rightarrow> string list \<Rightarrow> string list" where
  "collect_symbols [] symbols = symbols"
| "collect_symbols (instrument # rest) symbols =
     (case symbol instrument of
        None \<Rightarrow> collect_symbols rest symbols
      | Some s \<Rightarrow>
          if s \<noteq> [] \<and> endswith s ''USDT'' then
            (if \<not> denylisted s then collect_symbols rest (symbols @ [s])
             else collect_symbols rest symbols)
          else collect_symbols rest symbols)"

text \<open>\<open>APIClient.get_all_futures_symbols\<close>, for the answer \<open>data\<close> of the request.\<close>

definition get_all_futures_symbols :: "instruments_info option \<Rightarrow> string list" where
  "get_all_futures_symbols data =
     (case data of
        None \<Rightarrow> []
      | Some d \<Rightarrow> if retCode d = Some 0 then collect_symbols (result_list d) [] else [])"

text \<open>
  A row of the candle frame built by \<open>get_klines_data\<close>, and the frame as the list of
  its rows. The numeric columns come from \<open>pd.to_numeric(..., errors='coerce')\<close>, which
  turns a text that is no number into NaN. \<open>get_klines_data\<close> and \<open>get_current_price\<close>
  are the two fetches of a symbol; each returns \<open>None\<close> on any failure.
\<close>

record candle =
  timestamp :: int
  open_price :: pyfloat
  high :: pyfloat
  low :: pyfloat
  close :: pyfloat
  volume :: pyfloat
  turnover :: pyfloat

type_synonym dataframe = "candle list"

record symbol_data =
  sd_symbol :: string
  sd_data :: dataframe
  sd_current_price :: real

text \<open>\<open>APIClient._process_symbol_data\<close>; \<open>if current_price:\<close> is false for \<open>None\<close>
  and for the price 0.0.\<close>

definition process_symbol_data ::
  "(string \<Rightarrow> dataframe option) \<Rightarrow> (string \<Rightarrow> real option) \<Rightarrow> string \<Rightarrow> symbol_data option" where
  "process_symbol_data get_klines_data get_current_price sname =
     (case get_klines_data sname of
        None \<Rightarrow> None
      | Some df \<Rightarrow>
          if length df > 50 then
            (case get_current_price sname of
               None \<Rightarrow> None
             | Some current_price \<Rightarrow>
                 if current_price \<noteq> 0
                 then Some \<lparr>sd_symbol = sname, sd_data = df, sd_current_price = current_price\<rparr>
                 else None)
          else None)"

text \<open>The loop over the completed futures: a result that is not \<open>None\<close> is appended.\<close>

fun collect_results :: "(string \<Rightarrow> symbol_data option) \<Rightarrow> string list \<Rightarrow> symbol_data list \<Rightarrow> symbol_data list" where
  "collect_results process [] futures_data = futures_data"
| "collect_results process (sname # rest) futures_data =
     (case process sname of
        None \<Rightarrow> collect_results process rest futures_data
      | Some result \<Rightarrow> collect_results process rest (futures_data @ [result]))"

text \<open>
  \<open>APIClient.get_all_futures_data\<close>, for the answer \<open>data\<close> to the symbol request. The
  pool runs one task per entry of \<open>symbols\<close> and \<open>as_completed\<close> yields the tasks in an
  order the scheduler chooses: \<open>completed\<close> is that order, a rearrangement of \<open>symbols\<close>.
\<close>

definition get_all_futures_data ::
  "instruments_info option \<Rightarrow> (string \<Rightarrow> dataframe option) \<Rightarrow> (string \<Rightarrow> real option) \<Rightarrow>
     string list \<Rightarrow> symbol_data list" where
  "get_all_futures_data data get_klines_data get_current_price completed =
     (let symbols = get_all_futures_symbols data
      in if symbols = [] then []
         else collect_results (process_symbol_data get_klines_data get_current_price) completed [])"

section \<open>Indicator engine (analysis.py)\<close>

text \<open>
  A series is a list of floats: the entries of a price or volume column may be NaN, and
  so may the entries pandas computes (an incomplete window, the first entry of \<open>diff\<close>
  and \<open>shift\<close>). The two exceptions the pandas calls can raise are values of \<open>error\<close>.
\<close>

datatype error = ValueError | IndexError

type_synonym series = "pyfloat list"

definition ebind :: "error + 'a \<Rightarrow> ('a \<Rightarrow> error + 'b) \<Rightarrow> error + 'b" where
  "ebind m f = (case m of Inl e \<Rightarrow> Inl e | Inr x \<Rightarrow> f x)"

text \<open>\<open>s.iloc[-1]\<close> raises IndexError on an empty series.\<close>

definition iloc_last :: "'a list \<Rightarrow> error + 'a" where
  "iloc_last xs = (if xs = [] then Inl IndexError else Inr (last xs))"

text \<open>A binary operation on two series aligns them on their positions; a position that
  one of them lacks is NaN in the result.\<close>

definition entry :: "series \<Rightarrow> nat \<Rightarrow> pyfloat" where
  "entry xs i = (if i < length xs then xs ! i else None)"

definition align2 :: "(pyfloat \<Rightarrow> pyfloat \<Rightarrow> pyfloat) \<Rightarrow> series \<Rightarrow> series \<Rightarrow> series" where
  "align2 f xs ys = map (\<lambda>i. f (entry xs i) (entry ys i)) [0..<max (length xs) (length ys)]"

text \<open>The aggregations of a complete window. The standard deviation is the sample one
  (one degree of freedom removed), undefined for fewer than two observations.\<close>

definition window_mean :: "real list \<Rightarrow> pyfloat" where
  "window_mean ws = (if ws = [] then None else Some (sum_list ws / real (length ws)))"

definition window_std :: "real list \<Rightarrow> pyfloat" where
  "window_std ws =
     (if length ws < 2 then None
      else (let m = sum_list ws / real (length ws)
            in Some (sqrt (sum_list (map (\<lambda>x. (x - m)\<^sup>2) ws) / real (length ws - 1)))))"

definition window_min :: "real list \<Rightarrow> pyfloat" where
  "window_min ws = (case ws of [] \<Rightarrow> None | x # xs \<Rightarrow> Some (fold min xs x))"

definition window_max :: "real list \<Rightarrow> pyfloat" where
  "window_max ws = (case ws of [] \<Rightarrow> None | x # xs \<Rightarrow> Some (fold max xs x))"

text \<open>
  \<open>s.rolling(window=w).agg()\<close>: a negative window raises ValueError; the entry at
  position \<open>i\<close> aggregates the \<open>w\<close> entries ending at \<open>i\<close> and is NaN when fewer than
  \<open>w\<close> entries exist or one of them is NaN.
\<close>

definition rolling :: "(real list \<Rightarrow> pyfloat) \<Rightarrow> int \<Rightarrow> series \<Rightarrow> error + series" where
  "rolling agg window xs =
     (if window < 0 then Inl ValueError
      else Inr (map (\<lambda>i. if i + 1 < nat window then None
                         else (case those (take (nat window) (drop (i + 1 - nat window) xs)) of
                                 None \<Rightarrow> None
                               | Some ws \<Rightarrow> agg ws))
                  [0..<length xs]))"

text \<open>\<open>s.diff()\<close> and \<open>s.shift()\<close>: the first entry is NaN.\<close>

definition diff :: "series \<Rightarrow> series" where
  "diff xs = (if xs = [] then [] else None # map2 (\<lambda>prev cur. fsub cur prev) xs (tl xs))"

definition shift :: "series \<Rightarrow> series" where
  "shift xs = (if xs = [] then [] else None # butlast xs)"

text \<open>\<open>s.where(cond, 0)\<close> for a comparison \<open>cond\<close>, which is false on NaN.\<close>

definition where_else_zero :: "(real \<Rightarrow> bool) \<Rightarrow> series \<Rightarrow> series" where
  "where_else_zero cond xs =
     map (\<lambda>d. case d of None \<Rightarrow> Some 0 | Some x \<Rightarrow> if cond x then Some x else Some 0) xs"

text \<open>
  \<open>s.ewm(span=n).mean()\<close> with the defaults \<open>adjust=True\<close>, \<open>ignore_na=False\<close>,
  \<open>min_periods=0\<close>, as pandas computes it: a running weighted average \<open>weighted_avg\<close>
  with the weight \<open>old_wt\<close> of the past, which decays by \<open>1 - alpha\<close> at every position. A
  NaN entry leaves the average as it is; before the first number the result is NaN. A
  span below 1 raises ValueError.
\<close>

fun ewm_loop :: "real \<Rightarrow> pyfloat \<Rightarrow> real \<Rightarrow> series \<Rightarrow> series" where
  "ewm_loop old_wt_factor weighted_avg old_wt [] = []"
| "ewm_loop old_wt_factor weighted_avg old_wt (cur # rest) =
     (case weighted_avg of
        None \<Rightarrow> cur # ewm_loop old_wt_factor cur old_wt rest
      | Some avg \<Rightarrow>
          (case cur of
             None \<Rightarrow> Some avg # ewm_loop old_wt_factor (Some avg) (old_wt * old_wt_factor) rest
           | Some c \<Rightarrow>
               (let w = old_wt * old_wt_factor;
                    avg' = (if avg \<noteq> c then (w * avg + 1 * c) / (w + 1) else avg)
                in Some avg' # ewm_loop old_wt_factor (Some avg') (w + 1) rest)))"

definition ewm_mean :: "int \<Rightarrow> series \<Rightarrow> error + series" where
  "ewm_mean span_n xs =
     (if span_n < 1 then Inl ValueError
      else (let alpha = 2 / (real_of_int span_n + 1)
            in case xs of
                 [] \<Rightarrow> Inr []
               | x # rest \<Rightarrow> Inr (x # ewm_loop (1 - alpha) x 1 rest)))"

text \<open>\<open>s.mean()\<close> skips NaN entries and is NaN when no number is left.\<close>

primrec dropna :: "series \<Rightarrow> real list" where
  "dropna [] = []"
| "dropna (x # xs) = (case x of None \<Rightarrow> dropna xs | Some v \<Rightarrow> v # dropna xs)"

definition series_mean :: "series \<Rightarrow> pyfloat" where
  "series_mean xs =
     (if dropna xs = [] then None else Some (sum_list (dropna xs) / real (length (dropna xs))))"

definition calculate_z_score :: "series \<Rightarrow> int \<Rightarrow> error + pyfloat" where
  "calculate_z_score prices period =
     (if int (length prices) < period then Inr (Some 0.0)
      else
        ebind (rolling window_mean period prices) (\<lambda>rolling_mean.
        ebind (rolling window_std period prices) (\<lambda>rolling_std.
        ebind (iloc_last rolling_std) (\<lambda>std_last.
          if flt_eq std_last (Some 0) then Inr (Some 0.0)
          else
            ebind (iloc_last prices) (\<lambda>price_last.
            ebind (iloc_last rolling_mean) (\<lambda>mean_last.
              Inr (fdiv (fsub price_last mean_last) std_last)))))))"

definition calculate_sma :: "series \<Rightarrow> int \<Rightarrow> error + pyfloat" where
  "calculate_sma prices period =
     (if int (length prices) < period
      then Inr (if length prices > 0 then series_mean prices else Some 0.0)
      else ebind (rolling window_mean period prices) iloc_last)"

definition calculate_rsi :: "series \<Rightarrow> int \<Rightarrow> error + pyfloat" where
  "calculate_rsi prices period =
     (if int (length prices) < period + 1 then Inr (Some 50.0)
      else
        (let delta = diff prices in
         ebind (rolling window_mean period (where_else_zero (\<lambda>d. d > 0) delta)) (\<lambda>gain.
         ebind (rolling window_mean period
                  (map (map_option uminus) (where_else_zero (\<lambda>d. d < 0) delta))) (\<lambda>loss.
         ebind (iloc_last loss) (\<lambda>loss_last.
           if flt_eq loss_last (Some 0) then Inr (Some 100.0)
           else
             ebind (iloc_last gain) (\<lambda>gain_last.
               (let rs = fdiv gain_last loss_last;
                    rsi = fsub (Some 100) (fdiv (Some 100) (fadd (Some 1) rs))
                in Inr rsi)))))))"

definition calculate_macd :: "series \<Rightarrow> int \<Rightarrow> int \<Rightarrow> int \<Rightarrow> error + pyfloat \<times> pyfloat \<times> pyfloat" where
  "calculate_macd prices fast slow signal =
     (if int (length prices) < slow then Inr (Some 0.0, Some 0.0, Some 0.0)
      else
        ebind (ewm_mean fast prices) (\<lambda>ema_fast.
        ebind (ewm_mean slow prices) (\<lambda>ema_slow.
          (let macd_line = align2 fsub ema_fast ema_slow in
           ebind (ewm_mean signal macd_line) (\<lambda>signal_line.
             (let histogram = align2 fsub macd_line signal_line in
              ebind (iloc_last macd_line) (\<lambda>m.
              ebind (iloc_last signal_line) (\<lambda>s.
              ebind (iloc_last histogram) (\<lambda>h. Inr (m, s, h))))))))))"

definition calculate_volume_sma :: "series \<Rightarrow> int \<Rightarrow> error + pyfloat" where
  "calculate_volume_sma volumes period =
     (if int (length volumes) < period
      then Inr (if length volumes > 0 then series_mean volumes else Some 0.0)
      else ebind (rolling window_mean period volumes) iloc_last)"

definition calculate_bollinger_bands ::
  "series \<Rightarrow> int \<Rightarrow> real \<Rightarrow> error + pyfloat \<times> pyfloat \<times> pyfloat" where
  "calculate_bollinger_bands prices period std_dev =
     (if int (length prices) < period then Inr (Some 0.0, Some 0.0, Some 0.0)
      else
        ebind (rolling window_mean period prices) (\<lambda>sma.
        ebind (rolling window_std period prices) (\<lambda>std.
          (let upper_band = align2 fadd sma (map (\<lambda>x. fmul x (Some std_dev)) std);
               lower_band = align2 fsub sma (map (\<lambda>x. fmul x (Some std_dev)) std)
           in ebind (iloc_last upper_band) (\<lambda>u.
              ebind (iloc_last sma) (\<lambda>m.
              ebind (iloc_last lower_band) (\<lambda>l. Inr (u, m, l))))))))"

definition calculate_stochastic ::
  "series \<Rightarrow> series \<Rightarrow> series \<Rightarrow> int \<Rightarrow> error + pyfloat \<times> pyfloat" where
  "calculate_stochastic high_s low_s close_s period =
     (if int (length close_s) < period then Inr (Some 50.0, Some 50.0)
      else
        ebind (rolling window_min period low_s) (\<lambda>lowest_low.
        ebind (rolling window_max period high_s) (\<lambda>highest_high.
          (let k_percent =
                 map (fmul (Some 100))
                   (align2 fdiv (align2 fsub close_s lowest_low)
                      (align2 fsub highest_high lowest_low))
           in ebind (rolling window_mean 3 k_percent) (\<lambda>d_percent.
              ebind (iloc_last k_percent) (\<lambda>k.
              ebind (iloc_last d_percent) (\<lambda>d. Inr (k, d))))))))"

text \<open>The row-wise maximum of \<open>pd.concat([tr1, tr2, tr3], axis=1)\<close>, which skips NaN
  entries and is NaN where all three are.\<close>

definition max_skipna :: "pyfloat \<Rightarrow> pyfloat \<Rightarrow> pyfloat" where
  "max_skipna a b =
     (case a of None \<Rightarrow> b | Some x \<Rightarrow> (case b of None \<Rightarrow> Some x | Some y \<Rightarrow> Some (max x y)))"

definition calculate_atr :: "series \<Rightarrow> series \<Rightarrow> series \<Rightarrow> int \<Rightarrow> error + pyfloat" where
  "calculate_atr high_s low_s close_s period =
     (if int (length close_s) < period then Inr (Some 0.0)
      else
        (let tr1 = align2 fsub high_s low_s;
             tr2 = map py_abs (align2 fsub high_s (shift close_s));
             tr3 = map py_abs (align2 fsub low_s (shift close_s));
             true_range = align2 max_skipna (align2 max_skipna tr1 tr2) tr3
         in ebind (rolling window_mean period true_range) iloc_last))"

section \<open>Pipeline orchestrator (analysis.py)\<close>

text \<open>\<open>round(x, ndigits)\<close>: to the nearest multiple of \<open>10 ^ - ndigits\<close>, a tie to the even
  one; NaN stays NaN.\<close>

definition round_half_even :: "real \<Rightarrow> int" where
  "round_half_even x =
     (let f = \<lfloor>x\<rfloor>; r = x - of_int f
      in if r < 1 / 2 then f else if r > 1 / 2 then f + 1 else if even f then f else f + 1)"

definition py_round :: "pyfloat \<Rightarrow> nat \<Rightarrow> pyfloat" where
  "py_round x ndigits =
     map_option (\<lambda>v. of_int (round_half_even (v * 10 ^ ndigits)) / 10 ^ ndigits) x"

record analysis_result =
  ar_symbol :: string
  ar_current_price :: real
  ar_z_score :: pyfloat
  ar_sma_50 :: pyfloat
  ar_rsi :: pyfloat
  ar_macd_line :: pyfloat
  ar_macd_signal :: pyfloat
  ar_macd_histogram :: pyfloat
  ar_volume_sma :: pyfloat
  ar_volume_ratio :: pyfloat
  ar_signal :: direction
  ar_strength :: strength
  ar_precision :: pyfloat
  ar_timestamp :: datetime
  ar_valid :: bool

text \<open>
  \<open>TradingAnalyzer.analyze_symbol\<close>; \<open>now\<close> is the reading of \<open>datetime.now()\<close>. The
  indicators go to \<open>generate_signal\<close> as they are, NaN included. An exception raised by
  an indicator would be caught and give \<open>None\<close>: that is the last case, and with at least
  50 rows no indicator raises (lemma \<open>indicators_no_exception\<close> below).
\<close>

definition analyze_symbol :: "string \<Rightarrow> dataframe \<Rightarrow> real \<Rightarrow> datetime \<Rightarrow> analysis_result option" where
  "analyze_symbol sname data current_price now =
     (if length data < 50 then None
      else
        (let prices = map close data;
             volumes = map volume data
         in case (calculate_z_score prices 20, calculate_sma prices 50, calculate_rsi prices 14,
                  calculate_macd prices 12 26 9, calculate_volume_sma volumes 20) of
              (Inr z_score, Inr sma_50, Inr rsi,
               Inr (macd_line, macd_signal, macd_histogram), Inr volume_sma) \<Rightarrow>
                (let current_volume = (if length volumes > 0 then last volumes else Some 0);
                     volume_ratio = (if flt_gt volume_sma (Some 0)
                                     then fdiv current_volume volume_sma else Some 1.0)
                 in case generate_signal z_score rsi macd_histogram volume_ratio of
                      None \<Rightarrow> None
                    | Some signal_info \<Rightarrow>
                        Some \<lparr>ar_symbol = sname,
                              ar_current_price = current_price,
                              ar_z_score = py_round z_score 4,
                              ar_sma_50 = py_round sma_50 4,
                              ar_rsi = py_round rsi 2,
                              ar_macd_line = py_round macd_line 6,
                              ar_macd_signal = py_round macd_signal 6,
                              ar_macd_histogram = py_round macd_histogram 6,
                              ar_volume_sma = py_round volume_sma 2,
                              ar_volume_ratio = py_round volume_ratio 2,
                              ar_signal = direction signal_info,
                              ar_strength = strength signal_info,
                              ar_precision = py_round (precision signal_info) 2,
                              ar_timestamp = now,
                              ar_valid = True\<rparr>)
            | _ \<Rightarrow> None))"



text \<open>
  \<open>a < b\<close> on two such tuples, as Python compares tuples: the first components decide
  unless they are equal under \<open>==\<close>, and then the strings decide, compared character by
  character. A NaN first component is equal to nothing and less than nothing.
\<close>

definition key_lt :: "pyfloat \<times> string \<Rightarrow> pyfloat \<times> string \<Rightarrow> bool" where
  "key_lt a b = (if flt_eq (fst a) (fst b) then snd a < snd b else flt_lt (fst a) (fst b))"

text \<open>
  \<open>list.sort(key=..., reverse=True)\<close> reverses the list, sorts it with \<open>lt\<close> on the keys
  as its only comparison, and reverses the result. The sort is written as the stable
  insertion sort. Where \<open>lt\<close> orders the keys totally, every stable sort returns this
  list. Where it does not (NaN keys), the one case used below is a list in which no key
  is \<open>lt\<close> its predecessor: it is a single ascending run for the run detection of
  Python's sort, which then returns it unchanged, as the insertion sort does (lemma
  \<open>sort_lt_run\<close>).
\<close>

fun insort_lt :: "('k \<Rightarrow> 'k \<Rightarrow> bool) \<Rightarrow> ('a \<Rightarrow> 'k) \<Rightarrow> 'a \<Rightarrow> 'a list \<Rightarrow> 'a list" where
  "insort_lt lt key x [] = [x]"
| "insort_lt lt key x (y # ys) =
     (if lt (key y) (key x) then y # insort_lt lt key x ys else x # y # ys)"

definition sort_lt :: "('k \<Rightarrow> 'k \<Rightarrow> bool) \<Rightarrow> ('a \<Rightarrow> 'k) \<Rightarrow> 'a list \<Rightarrow> 'a list" where
  "sort_lt lt key xs = foldr (insort_lt lt key) xs []"

definition sort_reverse :: "('k \<Rightarrow> 'k \<Rightarrow> bool) \<Rightarrow> ('a \<Rightarrow> 'k) \<Rightarrow> 'a list \<Rightarrow> 'a list" where
  "sort_reverse lt key xs = rev (sort_lt lt key (rev xs))"


section \<open>Definitions for the proofs\<close>

text \<open>The whole test that guards \<open>symbols.append(symbol)\<close>.\<close>

definition symbol_accepted :: "string \<Rightarrow> bool" where
  "symbol_accepted s = (s \<noteq> [] \<and> endswith s ''USDT'' \<and> \<not> denylisted s)"

text \<open>The three additive bonuses of the precision score.\<close>

definition rsi_bonus :: "pyfloat \<Rightarrow> real" where
  "rsi_bonus rsi =
     (if flt_lt rsi (Some 25) \<or> flt_gt rsi (Some 75) then 20
      else if flt_lt rsi (Some 30) \<or> flt_gt rsi (Some 70) then 15
      else if flt_lt rsi (Some 40) \<or> flt_gt rsi (Some 60) then 10
      else 0)"

definition macd_bonus :: "pyfloat \<Rightarrow> real" where
  "macd_bonus macd_histogram =
     (if flt_gt (py_abs macd_histogram) (Some 0.002) then 15
      else if flt_gt (py_abs macd_histogram) (Some 0.001) then 10
      else 0)"

definition volume_bonus :: "pyfloat \<Rightarrow> real" where
  "volume_bonus volume_ratio =
     (if flt_gt volume_ratio (Some 1.5) then 15
      else if flt_gt volume_ratio (Some 1.2) then 10
      else 0)"

section \<open>Properties of the floats\<close>

lemma flt_lt_simps [simp]:
  "flt_lt (Some x) (Some y) \<longleftrightarrow> x < y"
  "flt_lt None b \<longleftrightarrow> False"
  "flt_lt a None \<longleftrightarrow> False"
  by (simp_all add: flt_lt_def split: option.splits)

lemma flt_gt_simps [simp]:
  "flt_gt (Some x) (Some y) \<longleftrightarrow> y < x"
  "flt_gt None b \<longleftrightarrow> False"
  "flt_gt a None \<longleftrightarrow> False"
  by (simp_all add: flt_gt_def)

lemma flt_eq_simps [simp]:
  "flt_eq (Some x) (Some y) \<longleftrightarrow> x = y"
  "flt_eq None b \<longleftrightarrow> False"
  "flt_eq a None \<longleftrightarrow> False"
  by (simp_all add: flt_eq_def split: option.splits)

lemma lift2_simps [simp]:
  "lift2 f (Some x) (Some y) = Some (f x y)"
  "lift2 f None b = None"
  "lift2 f a None = None"
  by (simp_all add: lift2_def split: option.splits)

lemma fdiv_simps [simp]:
  "y \<noteq> 0 \<Longrightarrow> fdiv (Some x) (Some y) = Some (x / y)"
  "fdiv (Some x) (Some 0) = None"
  "fdiv None b = None"
  "fdiv a None = None"
  by (simp_all add: fdiv_def split: option.splits)

lemma py_abs_simps [simp]:
  "py_abs (Some x) = Some \<bar>x\<bar>"
  "py_abs None = None"
  by (simp_all add: py_abs_def)

lemma py_min_simps [simp]:
  "py_min (Some x) (Some y) = Some (min x y)"
  "py_min None b = None"
  "py_min (Some x) None = Some x"
  by (auto simp add: py_min_def min_def)

section \<open>Properties of the classifier\<close>

lemma if_fadd3:
  "(if a then fadd p (Some x) else if b then fadd p (Some y) else if c then fadd p (Some z)
    else p) =
     fadd p (Some (if a then x else if b then y else if c then z else 0))"
  by (cases p) simp_all

lemma if_fadd2:
  "(if a then fadd p (Some x) else if b then fadd p (Some y) else p) =
     fadd p (Some (if a then x else if b then y else 0))"
  by (cases p) simp_all

lemma if_fadd1:
  "(if a then fadd p (Some x) else fadd p (Some y)) = fadd p (Some (if a then x else y))"
  by simp

text \<open>The score is the capped sum of the base 50 and the four contributions.\<close>

lemma precision_sum:
  "calculate_signal_precision z r m v =
     py_min (fadd (fadd (fadd (fadd (Some 50)
       (fmul (py_min (fdiv (py_abs z) (Some 3)) (Some 1)) (Some 30)))
       (Some (rsi_bonus r))) (Some (macd_bonus m))) (Some (volume_bonus v))) (Some 100)"
  unfolding calculate_signal_precision_def Let_def if_fadd3 if_fadd2 if_fadd1 rsi_bonus_def
    macd_bonus_def volume_bonus_def
  by (rule refl)

lemma precision_Some:
  "calculate_signal_precision (Some z) r m v =
     Some (min (50 + min (\<bar>z\<bar> / 3) 1 * 30 + rsi_bonus r + macd_bonus m + volume_bonus v) 100)"
  unfolding precision_sum by simp

text \<open>A NaN z-score makes the score NaN, whatever the other inputs.\<close>

lemma precision_NaN: "calculate_signal_precision None r m v = None"
  unfolding precision_sum by simp

lemmas bonus_defs = rsi_bonus_def macd_bonus_def volume_bonus_def

lemmas classifier_defs = generate_signal_def direction_rules_def strength_rules_def
  Z_SCORE_THRESHOLD_def RSI_OVERBOUGHT_def RSI_OVERSOLD_def precision_Some precision_NaN
  bonus_defs

lemma rsi_bonus_bounds: "0 \<le> rsi_bonus r" "rsi_bonus r \<le> 20"
  by (simp_all add: rsi_bonus_def)

lemma macd_bonus_bounds: "0 \<le> macd_bonus m" "macd_bonus m \<le> 15"
  by (simp_all add: macd_bonus_def)

lemma volume_bonus_bounds: "0 \<le> volume_bonus v" "volume_bonus v \<le> 15"
  by (simp_all add: volume_bonus_def)

lemma volume_bonus_mono: "v1 \<le> v2 \<Longrightarrow> volume_bonus (Some v1) \<le> volume_bonus (Some v2)"
  by (simp add: volume_bonus_def)

lemma z_bonus_bounds: "0 \<le> min (\<bar>z::real\<bar> / 3) 1 * 30"
  by simp

lemma precision_lower:
  "calculate_signal_precision (Some z) r m v = Some p \<Longrightarrow> 50 \<le> p"
  using rsi_bonus_bounds(1) [of r] macd_bonus_bounds(1) [of m] volume_bonus_bounds(1) [of v]
    z_bonus_bounds [of z]
  unfolding precision_Some by simp

lemma precision_upper:
  "calculate_signal_precision z r m v = Some p \<Longrightarrow> p \<le> 100"
  by (cases z) (auto simp add: precision_Some precision_NaN)

lemma strength_mono_volume:
  "v1 \<le> v2 \<Longrightarrow>
     strength_rank (strength_rules d r m (Some v1)) \<le> strength_rank (strength_rules d r m (Some v2))"
  by (simp add: strength_rules_def Let_def)

lemma precision_beyond_threshold:
  assumes "2 < \<bar>z\<bar>"
  shows "\<exists>p. calculate_signal_precision (Some z) r m v = Some p \<and> 70 < p"
proof -
  from assms have "20 < min (\<bar>z\<bar> / 3) 1 * 30"
    by (simp add: min_def)
  then have "70 < min (50 + min (\<bar>z\<bar> / 3) 1 * 30 + rsi_bonus r + macd_bonus m
      + volume_bonus v) 100"
    using rsi_bonus_bounds(1) [of r] macd_bonus_bounds(1) [of m] volume_bonus_bounds(1) [of v]
    by linarith
  then show ?thesis
    unfolding precision_Some by simp
qed

text \<open>Every rule that determines a direction also contributes at least 10 points, so
  the gate at 60 never removes a signal whose direction was determined.\<close>

lemma direction_rules_cases:
  assumes "direction_rules z r m \<noteq> None"
  shows "flt_gt (py_abs z) (Some 2) \<or> flt_gt r (Some 70) \<or> flt_lt r (Some 30) \<or>
         flt_gt (py_abs m) (Some 0.001)"
proof -
  have "flt_gt z (Some 2) \<or> flt_lt z (Some (- 2)) \<or> flt_gt r (Some 70) \<or>
      flt_lt r (Some 30) \<or> flt_lt m (Some (- 0.001)) \<or> flt_gt m (Some 0.001)"
    using assms
    by (auto simp: direction_rules_def Z_SCORE_THRESHOLD_def RSI_OVERBOUGHT_def
        RSI_OVERSOLD_def split: if_splits)
  moreover have "flt_gt z (Some 2) \<or> flt_lt z (Some (- 2)) \<Longrightarrow> flt_gt (py_abs z) (Some 2)"
    by (cases z) auto
  moreover have "flt_lt m (Some (- 0.001)) \<or> flt_gt m (Some 0.001) \<Longrightarrow>
      flt_gt (py_abs m) (Some 0.001)"
    by (cases m) auto
  ultimately show ?thesis
    by blast
qed

lemma precision_of_direction:
  assumes "direction_rules z r m \<noteq> None"
  shows "\<not> flt_lt (calculate_signal_precision z r m v) (Some 60)"
proof (cases z)
  case None
  then show ?thesis
    by (simp add: precision_NaN)
next
  case (Some zv)
  from direction_rules_cases [OF assms]
  consider "2 < \<bar>zv\<bar>" | "flt_gt r (Some 70) \<or> flt_lt r (Some 30)"
    | "flt_gt (py_abs m) (Some 0.001)"
    using Some by auto
  then have "60 \<le> min (50 + min (\<bar>zv\<bar> / 3) 1 * 30 + rsi_bonus r + macd_bonus m
      + volume_bonus v) 100"
  proof cases
    case 1
    then have "20 < min (\<bar>zv\<bar> / 3) 1 * 30"
      by (simp add: min_def)
    then show ?thesis
      using rsi_bonus_bounds(1) [of r] macd_bonus_bounds(1) [of m]
        volume_bonus_bounds(1) [of v] by linarith
  next
    case 2
    then have "15 \<le> rsi_bonus r"
      by (cases r) (auto simp: rsi_bonus_def)
    then show ?thesis
      using macd_bonus_bounds(1) [of m] volume_bonus_bounds(1) [of v] z_bonus_bounds [of zv]
      by linarith
  next
    case 3
    then have "10 \<le> macd_bonus m"
      by (auto simp: macd_bonus_def)
    then show ?thesis
      using rsi_bonus_bounds(1) [of r] volume_bonus_bounds(1) [of v] z_bonus_bounds [of zv]
      by linarith
  qed
  then show ?thesis
    unfolding Some precision_Some by simp
qed

lemma generate_signal_Some:
  "generate_signal z r m v = Some s \<longleftrightarrow>
     (\<exists>d. direction_rules z r m = Some d \<and>
        s = \<lparr>direction = d, strength = strength_rules d r m v,
              precision = calculate_signal_precision z r m v\<rparr>)"
proof (cases "direction_rules z r m")
  case None
  then show ?thesis
    by (simp add: generate_signal_def)
next
  case (Some d)
  then have "\<not> flt_lt (calculate_signal_precision z r m v) (Some 60)"
    using precision_of_direction [of z r m v] by simp
  with Some show ?thesis
    by (auto simp: generate_signal_def Let_def)
qed

text \<open>
  Claim C1. Whenever the additive precision score of an input tuple is below 60,
  \<open>generate_signal\<close> returns no signal, whatever direction the precedence rules found.
\<close>

theorem generate_signal_precision_gate:
  "calculate_signal_precision z_score rsi macd_histogram volume_ratio = Some p \<Longrightarrow> p < 60 \<Longrightarrow>
     generate_signal z_score rsi macd_histogram volume_ratio = None"
  by (simp add: generate_signal_def Let_def split: option.splits)

theorem generate_signal_precision_gate_witness:
  "calculate_signal_precision (Some (3 / 5)) (Some 45) (Some (1 / 1000)) (Some (12 / 10)) = Some 56 \<and>
   (56::real) < 60 \<and>
   generate_signal (Some (3 / 5)) (Some 45) (Some (1 / 1000)) (Some (12 / 10)) = None"
proof -
  have p: "calculate_signal_precision (Some (3 / 5)) (Some 45) (Some (1 / 1000))
      (Some (12 / 10)) = Some 56"
    by (simp add: precision_Some bonus_defs)
  have l: "(56::real) < 60"
    by simp
  show ?thesis
    using p l generate_signal_precision_gate [OF p l] by simp
qed

text \<open>
  Claim C2. A z-score above the threshold 2.0 always yields a signal and its direction is
  SELL; a z-score below -2.0 always yields a signal and its direction is BUY. The RSI
  and MACD inputs (and the volume ratio), NaN included, have no influence on the
  direction.
\<close>

theorem generate_signal_z_score_precedence:
  "(2 < z_score \<longrightarrow>
      map_option direction (generate_signal (Some z_score) rsi macd_histogram volume_ratio)
        = Some SELL) \<and>
   (z_score < - 2 \<longrightarrow>
      map_option direction (generate_signal (Some z_score) rsi macd_histogram volume_ratio)
        = Some BUY)"
proof (intro conjI impI)
  assume z: "2 < z_score"
  then have "direction_rules (Some z_score) rsi macd_histogram = Some SELL"
    by (simp add: direction_rules_def Z_SCORE_THRESHOLD_def)
  then show
    "map_option direction (generate_signal (Some z_score) rsi macd_histogram volume_ratio)
      = Some SELL"
    using generate_signal_Some [of "Some z_score" rsi macd_histogram volume_ratio] by simp
next
  assume z: "z_score < - 2"
  then have "direction_rules (Some z_score) rsi macd_histogram = Some BUY"
    by (simp add: direction_rules_def Z_SCORE_THRESHOLD_def)
  then show
    "map_option direction (generate_signal (Some z_score) rsi macd_histogram volume_ratio)
      = Some BUY"
    using generate_signal_Some [of "Some z_score" rsi macd_histogram volume_ratio] by simp
qed

theorem generate_signal_z_score_precedence_witness:
  "(2::real) < 3 \<and>
   map_option direction (generate_signal (Some 3) (Some 20) (Some (1 / 2)) (Some 1)) = Some SELL \<and>
   (- 3::real) < - 2 \<and>
   map_option direction (generate_signal (Some (- 3)) (Some 80) (Some (- 1 / 2)) None) = Some BUY"
  using generate_signal_z_score_precedence [of 3 "Some 20" "Some (1 / 2)" "Some 1"]
    generate_signal_z_score_precedence [of "- 3" "Some 80" "Some (- 1 / 2)" None]
  by simp

text \<open>
  Claim C9. For fixed z-score, RSI and MACD histogram, raising the volume ratio never
  lowers the strength: a signal produced at the lower ratio is also produced at the higher
  one, with the same direction and a strength at least as high in the order
  WEAK < MODERATE < STRONG. The ratios 0.5, 1.0 and 2.0 are one instance.
\<close>

theorem generate_signal_strength_mono_volume:
  assumes "v1 \<le> v2"
    and "generate_signal z_score rsi macd_histogram (Some v1) = Some s1"
  shows "\<exists>s2. generate_signal z_score rsi macd_histogram (Some v2) = Some s2 \<and>
           direction s2 = direction s1 \<and>
           strength_rank (strength s1) \<le> strength_rank (strength s2)"
proof -
  from assms(2) obtain d where d: "direction_rules z_score rsi macd_histogram = Some d"
    and s1: "s1 = \<lparr>direction = d, strength = strength_rules d rsi macd_histogram (Some v1),
                   precision = calculate_signal_precision z_score rsi macd_histogram (Some v1)\<rparr>"
    unfolding generate_signal_Some by blast
  define s2 where "s2 = \<lparr>direction = d, strength = strength_rules d rsi macd_histogram (Some v2),
                   precision = calculate_signal_precision z_score rsi macd_histogram (Some v2)\<rparr>"
  have "generate_signal z_score rsi macd_histogram (Some v2) = Some s2"
    unfolding generate_signal_Some using d s2_def by blast
  moreover have "direction s2 = direction s1"
    by (simp add: s1 s2_def)
  moreover have "strength_rank (strength s1) \<le> strength_rank (strength s2)"
    using strength_mono_volume [OF assms(1)] by (simp add: s1 s2_def)
  ultimately show ?thesis
    by blast
qed

theorem generate_signal_strength_mono_volume_witness:
  "generate_signal (Some 3) (Some 50) (Some 0) (Some (1 / 2))
     = Some \<lparr>direction = SELL, strength = WEAK, precision = Some 80\<rparr> \<and>
   generate_signal (Some 3) (Some 50) (Some 0) (Some 1)
     = Some \<lparr>direction = SELL, strength = WEAK, precision = Some 80\<rparr> \<and>
   generate_signal (Some 3) (Some 50) (Some 0) (Some 2)
     = Some \<lparr>direction = SELL, strength = MODERATE, precision = Some 95\<rparr> \<and>
   (\<exists>s2. generate_signal (Some 3) (Some 50) (Some 0) (Some 2) = Some s2 \<and> direction s2 = SELL \<and>
      strength_rank WEAK \<le> strength_rank (strength s2))"
proof -
  have a: "generate_signal (Some 3) (Some 50) (Some 0) (Some (1 / 2))
      = Some \<lparr>direction = SELL, strength = WEAK, precision = Some 80\<rparr>"
    by (simp add: classifier_defs)
  have b: "generate_signal (Some 3) (Some 50) (Some 0) (Some 1)
      = Some \<lparr>direction = SELL, strength = WEAK, precision = Some 80\<rparr>"
    by (simp add: classifier_defs)
  have c: "generate_signal (Some 3) (Some 50) (Some 0) (Some 2)
      = Some \<lparr>direction = SELL, strength = MODERATE, precision = Some 95\<rparr>"
    by (simp add: classifier_defs)
  have "(1::real) \<le> 2"
    by simp
  from generate_signal_strength_mono_volume [OF this b] a b c show ?thesis
    by simp
qed

text \<open>
  Claim C10, as the code has it. For every input tuple whose z-score is a number (the RSI,
  the MACD histogram and the volume ratio may be NaN), the precision score is a number in
  the closed interval [50, 100], and every signal returned by \<open>generate_signal\<close> carries
  it, so a precision in [60, 100]. With a NaN z-score the score is NaN; what
  \<open>generate_signal\<close> then returns is shown by \<open>precision_nan_counterexample\<close>.
\<close>

theorem precision_range:
  "\<exists>p. calculate_signal_precision (Some z_score) rsi macd_histogram volume_ratio = Some p \<and>
       50 \<le> p \<and> p \<le> 100 \<and>
       (\<forall>s. generate_signal (Some z_score) rsi macd_histogram volume_ratio = Some s \<longrightarrow>
          precision s = Some p \<and> 60 \<le> p)"
proof -
  obtain p where p: "calculate_signal_precision (Some z_score) rsi macd_histogram volume_ratio
      = Some p"
    by (simp add: precision_Some)
  have "50 \<le> p" "p \<le> 100"
    using precision_lower [OF p] precision_upper [OF p] by simp_all
  moreover have "precision s = Some p \<and> 60 \<le> p"
    if "generate_signal (Some z_score) rsi macd_histogram volume_ratio = Some s" for s
  proof -
    from that have "direction_rules (Some z_score) rsi macd_histogram \<noteq> None"
      and "precision s = Some p"
      unfolding generate_signal_Some using p by auto
    moreover from this(1) have "\<not> flt_lt (Some p) (Some 60)"
      using precision_of_direction [of "Some z_score" rsi macd_histogram volume_ratio] p
      by simp
    ultimately show ?thesis
      by simp
  qed
  ultimately show ?thesis
    using p by blast
qed

theorem precision_range_witness:
  "generate_signal (Some 0) (Some 72) None (Some 1)
     = Some \<lparr>direction = SELL, strength = STRONG, precision = Some 65\<rparr> \<and>
   calculate_signal_precision (Some 0) (Some 72) None (Some 1) = Some 65 \<and>
   (50::real) \<le> 65 \<and> (60::real) \<le> 65 \<and> (65::real) \<le> 100"
proof -
  have a: "generate_signal (Some 0) (Some 72) None (Some 1)
      = Some \<lparr>direction = SELL, strength = STRONG, precision = Some 65\<rparr>"
    by (simp add: classifier_defs)
  have b: "calculate_signal_precision (Some 0) (Some 72) None (Some 1) = Some 65"
    by (simp add: classifier_defs)
  from precision_range [of 0 "Some 72" None "Some 1"] a b show ?thesis
    by simp
qed

theorem precision_nan_counterexample:
  "calculate_signal_precision None (Some 80) (Some 0) (Some 1) = None \<and>
   generate_signal None (Some 80) (Some 0) (Some 1)
     = Some \<lparr>direction = SELL, strength = STRONG, precision = None\<rparr>"
  by (simp add: classifier_defs)

section \<open>Properties of the cache\<close>

lemma CacheManager_set_entry:
  "cache (CacheManager_set self t0 key v timeout) key = Some v"
  "timeouts (CacheManager_set self t0 key v timeout) key =
     Some (t0 + timedelta_seconds (timeout_or_default timeout (default_timeout self)))"
  by (simp_all add: CacheManager_set_def)

lemma CacheManager_get_expired:
  assumes "cache self key = Some v" and "timeouts self key = Some expiry" and "expiry \<le> now"
  shows "CacheManager_get self now key =
           (None, self\<lparr>cache := (cache self)(key := None),
                          timeouts := (timeouts self)(key := None)\<rparr>)"
  using assms by (simp add: CacheManager_get_def)

text \<open>
  Claim C7. An entry written by \<open>set\<close> at instant \<open>t0\<close> expires at \<open>t0\<close> plus its timeout.
  A \<open>get\<close> of the key at any instant at or after the expiry of the stored entry reports
  absence and leaves a cache from which the key is gone (the other keys are untouched), so
  a later \<open>get\<close> reports absence too; this holds for an entry just written by \<open>set\<close> and
  for any cache state that holds an expired entry.
\<close>

theorem cache_get_expired_removes:
  fixes self :: "'v CacheManager"
  assumes "cache self key = Some v" and "timeouts self key = Some expiry" and "expiry \<le> now"
  shows "fst (CacheManager_get self now key) = None \<and>
         cache (snd (CacheManager_get self now key)) = (cache self)(key := None) \<and>
         timeouts (snd (CacheManager_get self now key)) = (timeouts self)(key := None) \<and>
         (\<forall>later. fst (CacheManager_get (snd (CacheManager_get self now key)) later key) = None)"
  using assms by (simp add: CacheManager_get_def)

theorem cache_get_expired_removes_witness:
  "(let c = CacheManager_set \<lparr>cache = Map.empty, timeouts = Map.empty, default_timeout = 300\<rparr>
              0 ''k'' (7::nat) (Some 60)
    in fst (CacheManager_get c 59999999 ''k'') = Some 7 \<and>
       fst (CacheManager_get c 60000000 ''k'') = None \<and>
       cache (snd (CacheManager_get c 60000000 ''k'')) ''k'' = None \<and>
       timeouts (snd (CacheManager_get c 60000000 ''k'')) ''k'' = None)"
proof -
  define c where "c = CacheManager_set
    \<lparr>cache = Map.empty, timeouts = Map.empty, default_timeout = 300\<rparr> 0 ''k'' (7::nat) (Some 60)"
  have a: "cache c ''k'' = Some 7" and b: "timeouts c ''k'' = Some 60000000"
    by (simp_all add: c_def CacheManager_set_def timedelta_seconds_def timeout_or_default_def)
  have "fst (CacheManager_get c 59999999 ''k'') = Some 7"
    by (simp add: CacheManager_get_def a b)
  moreover have "(60000000::int) \<le> 60000000"
    by simp
  note cache_get_expired_removes [OF a b this]
  ultimately show ?thesis
    unfolding c_def [symmetric] Let_def by simp
qed

section \<open>Properties of the acquisition\<close>

lemma collect_symbols_eq:
  "collect_symbols instruments symbols =
     symbols @ filter symbol_accepted (List.map_filter symbol instruments)"
  by (induction instruments arbitrary: symbols)
    (simp_all add: List.map_filter_simps symbol_accepted_def split: option.splits)

lemma get_all_futures_symbols_eq:
  "get_all_futures_symbols data =
     (case data of
        None \<Rightarrow> []
      | Some d \<Rightarrow>
          if retCode d = Some 0
          then filter symbol_accepted (List.map_filter symbol (result_list d))
          else [])"
  by (simp add: get_all_futures_symbols_def collect_symbols_eq split: option.splits)

lemma in_get_all_futures_symbols:
  assumes "s \<in> set (get_all_futures_symbols data)"
  shows "symbol_accepted s"
  using assms by (cases data) (simp_all add: get_all_futures_symbols_eq split: if_splits)

lemma symbol_accepted_iff:
  "symbol_accepted s \<longleftrightarrow>
     s \<noteq> [] \<and> suffix ''USDT'' s \<and>
     \<not> prefix ''1000'' s \<and> \<not> prefix ''10000'' s \<and> \<not> prefix ''100000'' s \<and>
     \<not> prefix ''1000000'' s \<and> \<not> prefix ''TEST'' s \<and> \<not> prefix ''DEMO'' s \<and>
     \<not> prefix ''MOCK'' s \<and> \<not> sublist ''TEST'' s \<and> \<not> sublist ''DEMO'' s"
  unfolding symbol_accepted_def denylisted_def endswith_def startswith_def contains_def
  by (simp only: list.set bex_simps ball_simps Set.bex_simps insert_iff empty_iff simp_thms)
    blast

lemma distinct_get_all_futures_symbols:
  assumes "data = Some d" and "distinct (List.map_filter symbol (result_list d))"
  shows "distinct (get_all_futures_symbols data)"
  using assms(2) by (simp add: get_all_futures_symbols_eq assms(1))

lemmas string_tests = symbol_accepted_def denylisted_def endswith_def startswith_def
  contains_def suffix_to_prefix sublist_code

text \<open>
  Claim C6, as the code has it. Every returned symbol ends with USDT and matches no
  denylisted pattern (prefix 1000, 10000, 100000, 1000000 or MOCK, or TEST or DEMO
  anywhere in the name). Nothing removes duplicates: the result keeps the upstream order
  and multiplicity, and it is duplicate-free when the upstream list names no symbol twice
  (instruments without a symbol do not count).
\<close>

theorem get_all_futures_symbols_filtered:
  "(\<forall>s \<in> set (get_all_futures_symbols data).
      suffix ''USDT'' s \<and>
      \<not> prefix ''1000'' s \<and> \<not> prefix ''10000'' s \<and> \<not> prefix ''100000'' s \<and>
      \<not> prefix ''1000000'' s \<and> \<not> sublist ''TEST'' s \<and> \<not> sublist ''DEMO'' s \<and>
      \<not> prefix ''MOCK'' s) \<and>
   (\<forall>d. data = Some d \<and> distinct (List.map_filter symbol (result_list d)) \<longrightarrow>
      distinct (get_all_futures_symbols data))"
proof (rule conjI)
  show "\<forall>s \<in> set (get_all_futures_symbols data).
      suffix ''USDT'' s \<and>
      \<not> prefix ''1000'' s \<and> \<not> prefix ''10000'' s \<and> \<not> prefix ''100000'' s \<and>
      \<not> prefix ''1000000'' s \<and> \<not> sublist ''TEST'' s \<and> \<not> sublist ''DEMO'' s \<and>
      \<not> prefix ''MOCK'' s"
  proof
    fix s
    assume "s \<in> set (get_all_futures_symbols data)"
    then have "symbol_accepted s"
      by (rule in_get_all_futures_symbols)
    then show "suffix ''USDT'' s \<and>
        \<not> prefix ''1000'' s \<and> \<not> prefix ''10000'' s \<and> \<not> prefix ''100000'' s \<and>
        \<not> prefix ''1000000'' s \<and> \<not> sublist ''TEST'' s \<and> \<not> sublist ''DEMO'' s \<and>
        \<not> prefix ''MOCK'' s"
      unfolding symbol_accepted_iff by blast
  qed
  show "\<forall>d. data = Some d \<and> distinct (List.map_filter symbol (result_list d)) \<longrightarrow>
      distinct (get_all_futures_symbols data)"
    using distinct_get_all_futures_symbols by blast
qed

lemma get_all_futures_symbols_example:
  "get_all_futures_symbols (Some \<lparr>retCode = Some 0, result_list =
      [\<lparr>symbol = Some ''BTCUSDT''\<rparr>, \<lparr>symbol = Some ''1000PEPEUSDT''\<rparr>,
       \<lparr>symbol = None\<rparr>, \<lparr>symbol = Some ''BTCUSD''\<rparr>, \<lparr>symbol = None\<rparr>,
       \<lparr>symbol = Some ''ETHUSDT''\<rparr>]\<rparr>) = [''BTCUSDT'', ''ETHUSDT'']"
  by (simp add: get_all_futures_symbols_eq List.map_filter_simps string_tests)

theorem get_all_futures_symbols_filtered_witness:
  "set (get_all_futures_symbols (Some \<lparr>retCode = Some 0, result_list =
      [\<lparr>symbol = Some ''BTCUSDT''\<rparr>, \<lparr>symbol = Some ''1000PEPEUSDT''\<rparr>,
       \<lparr>symbol = None\<rparr>, \<lparr>symbol = Some ''BTCUSD''\<rparr>, \<lparr>symbol = None\<rparr>,
       \<lparr>symbol = Some ''ETHUSDT''\<rparr>]\<rparr>)) = {''BTCUSDT'', ''ETHUSDT''} \<and>
   suffix ''USDT'' ''BTCUSDT'' \<and> \<not> sublist ''TEST'' ''BTCUSDT'' \<and>
   distinct (get_all_futures_symbols (Some \<lparr>retCode = Some 0, result_list =
      [\<lparr>symbol = Some ''BTCUSDT''\<rparr>, \<lparr>symbol = Some ''1000PEPEUSDT''\<rparr>,
       \<lparr>symbol = None\<rparr>, \<lparr>symbol = Some ''BTCUSD''\<rparr>, \<lparr>symbol = None\<rparr>,
       \<lparr>symbol = Some ''ETHUSDT''\<rparr>]\<rparr>))"
  using get_all_futures_symbols_filtered [of "Some \<lparr>retCode = Some 0, result_list =
      [\<lparr>symbol = Some ''BTCUSDT''\<rparr>, \<lparr>symbol = Some ''1000PEPEUSDT''\<rparr>,
       \<lparr>symbol = None\<rparr>, \<lparr>symbol = Some ''BTCUSD''\<rparr>, \<lparr>symbol = None\<rparr>,
       \<lparr>symbol = Some ''ETHUSDT''\<rparr>]\<rparr>"]
  unfolding get_all_futures_symbols_example by (simp add: List.map_filter_simps)

theorem get_all_futures_symbols_duplicates:
  "\<not> distinct (get_all_futures_symbols (Some \<lparr>retCode = Some 0, result_list =
      [\<lparr>symbol = Some ''BTCUSDT''\<rparr>, \<lparr>symbol = Some ''BTCUSDT''\<rparr>]\<rparr>))"
  by (simp add: get_all_futures_symbols_eq List.map_filter_simps string_tests)

lemma collect_results_eq:
  "collect_results process completed futures_data =
     futures_data @ List.map_filter process completed"
  by (induction completed arbitrary: futures_data)
    (simp_all add: List.map_filter_simps split: option.splits)

lemma process_symbol_data_Some:
  "process_symbol_data get_klines_data get_current_price sname = Some r \<longleftrightarrow>
     (\<exists>df p. get_klines_data sname = Some df \<and> 50 < length df \<and>
        get_current_price sname = Some p \<and> p \<noteq> 0 \<and>
        r = \<lparr>sd_symbol = sname, sd_data = df, sd_current_price = p\<rparr>)"
  by (auto simp: process_symbol_data_def split: option.splits)

lemma map_filter_process_symbols:
  "sd_symbol ` set (List.map_filter (process_symbol_data get_klines_data get_current_price)
      completed)
   = {sname \<in> set completed.
        (\<exists>df. get_klines_data sname = Some df \<and> 50 < length df) \<and>
        (\<exists>p. get_current_price sname = Some p \<and> p \<noteq> 0)}"
  (is "?L = ?R")
proof (rule set_eqI)
  fix x
  have "x \<in> ?L \<longleftrightarrow>
      (\<exists>y \<in> set completed. \<exists>r.
         process_symbol_data get_klines_data get_current_price y = Some r \<and> sd_symbol r = x)"
    by (force simp: List.map_filter_def image_iff)
  also have "\<dots> \<longleftrightarrow> x \<in> ?R"
    unfolding process_symbol_data_Some by fastforce
  finally show "x \<in> ?L \<longleftrightarrow> x \<in> ?R" .
qed

text \<open>
  Claim C5, as the code has it. Whatever the completion order, a symbol of the batch is
  in the result exactly when its fetched series has more than 50 rows
  (\<open>len(df) > 50\<close>) and its latest price was fetched and is not 0 (\<open>if current_price:\<close>).
  Every other symbol is dropped and the batch goes on.
\<close>

theorem get_all_futures_data_membership:
  assumes "set completed = set (get_all_futures_symbols data)"
  shows "\<forall>sname \<in> set (get_all_futures_symbols data).
           sname \<in> sd_symbol ` set (get_all_futures_data data get_klines_data get_current_price
                                     completed) \<longleftrightarrow>
           (\<exists>df. get_klines_data sname = Some df \<and> 50 < length df) \<and>
           (\<exists>p. get_current_price sname = Some p \<and> p \<noteq> 0)"
proof (cases "get_all_futures_symbols data = []")
  case True
  then show ?thesis
    by simp
next
  case False
  then have "sd_symbol ` set (get_all_futures_data data get_klines_data get_current_price
        completed)
      = {sname \<in> set completed.
          (\<exists>df. get_klines_data sname = Some df \<and> 50 < length df) \<and>
          (\<exists>p. get_current_price sname = Some p \<and> p \<noteq> 0)}"
    by (simp add: get_all_futures_data_def collect_results_eq map_filter_process_symbols)
  with assms show ?thesis
    by simp
qed

lemma get_all_futures_symbols_three: "get_all_futures_symbols (Some \<lparr>retCode = Some 0, result_list =
        [\<lparr>symbol = Some ''AAAUSDT''\<rparr>, \<lparr>symbol = Some ''BBBUSDT''\<rparr>,
         \<lparr>symbol = Some ''CCCUSDT''\<rparr>]\<rparr>) = [''AAAUSDT'', ''BBBUSDT'', ''CCCUSDT'']"
  by (simp add: get_all_futures_symbols_eq List.map_filter_simps string_tests)

theorem get_all_futures_data_membership_witness:
  "set [''CCCUSDT'', ''AAAUSDT'', ''BBBUSDT''] =
     set (get_all_futures_symbols (Some \<lparr>retCode = Some 0, result_list =
        [\<lparr>symbol = Some ''AAAUSDT''\<rparr>, \<lparr>symbol = Some ''BBBUSDT''\<rparr>,
         \<lparr>symbol = Some ''CCCUSDT''\<rparr>]\<rparr>)) \<and>
   map sd_symbol (get_all_futures_data
     (Some \<lparr>retCode = Some 0, result_list =
        [\<lparr>symbol = Some ''AAAUSDT''\<rparr>, \<lparr>symbol = Some ''BBBUSDT''\<rparr>,
         \<lparr>symbol = Some ''CCCUSDT''\<rparr>]\<rparr>)
     [''AAAUSDT'' \<mapsto> replicate 51 \<lparr>timestamp = 0, open_price = Some 1, high = Some 1,
        low = Some 1, close = Some 1, volume = Some 1, turnover = Some 1\<rparr>,
      ''BBBUSDT'' \<mapsto> replicate 50 \<lparr>timestamp = 0, open_price = Some 1, high = Some 1,
        low = Some 1, close = Some 1, volume = Some 1, turnover = Some 1\<rparr>]
     [''AAAUSDT'' \<mapsto> 100, ''BBBUSDT'' \<mapsto> 100]
     [''CCCUSDT'', ''AAAUSDT'', ''BBBUSDT'']) = [''AAAUSDT'']"
proof -
  have h: "set [''CCCUSDT'', ''AAAUSDT'', ''BBBUSDT''] =
     set (get_all_futures_symbols (Some \<lparr>retCode = Some 0, result_list =
        [\<lparr>symbol = Some ''AAAUSDT''\<rparr>, \<lparr>symbol = Some ''BBBUSDT''\<rparr>,
         \<lparr>symbol = Some ''CCCUSDT''\<rparr>]\<rparr>))"
    unfolding get_all_futures_symbols_three by auto
  have r: "map sd_symbol (get_all_futures_data
     (Some \<lparr>retCode = Some 0, result_list =
        [\<lparr>symbol = Some ''AAAUSDT''\<rparr>, \<lparr>symbol = Some ''BBBUSDT''\<rparr>,
         \<lparr>symbol = Some ''CCCUSDT''\<rparr>]\<rparr>)
     [''AAAUSDT'' \<mapsto> replicate 51 \<lparr>timestamp = 0, open_price = Some 1, high = Some 1,
        low = Some 1, close = Some 1, volume = Some 1, turnover = Some 1\<rparr>,
      ''BBBUSDT'' \<mapsto> replicate 50 \<lparr>timestamp = 0, open_price = Some 1, high = Some 1,
        low = Some 1, close = Some 1, volume = Some 1, turnover = Some 1\<rparr>]
     [''AAAUSDT'' \<mapsto> 100, ''BBBUSDT'' \<mapsto> 100]
     [''CCCUSDT'', ''AAAUSDT'', ''BBBUSDT'']) = [''AAAUSDT'']"
    unfolding get_all_futures_data_def get_all_futures_symbols_three Let_def
    by (simp add: process_symbol_data_def)
  from get_all_futures_data_membership [OF h] h r show ?thesis
    by blast
qed

theorem get_all_futures_data_fifty_rows:
  "get_all_futures_symbols
     (Some \<lparr>retCode = Some 0, result_list = [\<lparr>symbol = Some ''BTCUSDT''\<rparr>]\<rparr>) = [''BTCUSDT''] \<and>
   50 \<le> length (replicate 50 \<lparr>timestamp = 0, open_price = Some 1, high = Some 1,
        low = Some 1, close = Some 1, volume = Some 1, turnover = Some 1\<rparr>) \<and>
   get_all_futures_data
     (Some \<lparr>retCode = Some 0, result_list = [\<lparr>symbol = Some ''BTCUSDT''\<rparr>]\<rparr>)
     [''BTCUSDT'' \<mapsto> replicate 50 \<lparr>timestamp = 0, open_price = Some 1, high = Some 1,
        low = Some 1, close = Some 1, volume = Some 1, turnover = Some 1\<rparr>]
     [''BTCUSDT'' \<mapsto> 100] [''BTCUSDT''] = []"
proof -
  have s: "get_all_futures_symbols
     (Some \<lparr>retCode = Some 0, result_list = [\<lparr>symbol = Some ''BTCUSDT''\<rparr>]\<rparr>) = [''BTCUSDT'']"
    by (simp add: get_all_futures_symbols_eq List.map_filter_simps string_tests)
  show ?thesis
    unfolding get_all_futures_data_def s Let_def
    by (simp add: process_symbol_data_def)
qed

section \<open>Properties of the orchestrator's sort\<close>




text \<open>A list in which no key is \<open>lt\<close> its predecessor is returned as it is.\<close>

lemma sort_lt_run:
  "successively (\<lambda>x y. \<not> lt (key y) (key x)) xs \<Longrightarrow> sort_lt lt key xs = xs"
proof (induction xs)
  case Nil
  then show ?case
    by (simp add: sort_lt_def)
next
  case (Cons x xs)
  then have "sort_lt lt key xs = xs"
    by (cases xs) simp_all
  with Cons.prems show ?case
    by (cases xs) (simp_all add: sort_lt_def)
qed

text \<open>The keys 85, NaN, 70 (the reversed list of the decisions 70, NaN, 85) form such
  a run: no key is \<open>key_lt\<close> its predecessor.\<close>

lemma nan_keys_run:
  "successively (\<lambda>x y. \<not> key_lt y x)
     [(Some 85, strength_label STRONG), (None, strength_label STRONG),
      (Some 70, strength_label STRONG)]"
  by (simp add: key_lt_def)





lemma strength_label_order:
  "strength_label MODERATE < strength_label STRONG"
  "strength_label STRONG < strength_label WEAK"
  by simp_all

text \<open>At equal precision the labels decide, as text: WEAK comes first.\<close>

lemma sort_reverse_labels:
  "sort_reverse key_lt (\<lambda>k. k)
     [(Some 70, strength_label STRONG), (Some 70, strength_label WEAK),
      (Some 70, strength_label MODERATE)]
   = [(Some 70, strength_label WEAK), (Some 70, strength_label STRONG),
      (Some 70, strength_label MODERATE)]"
  by (simp add: sort_reverse_def sort_lt_def key_lt_def)


section \<open>Properties of the indicator engine\<close>

lemma dropna_map_Some: "dropna (map Some xs) = xs"
  by (induction xs) simp_all

text \<open>
  Claim C4. For a series shorter than the period, every indicator returns its fallback:
  SMA the mean of the points there are (0 for no points; NaN entries are skipped, as
  \<open>Series.mean\<close> does), Z-score 0, RSI 50, MACD (0, 0, 0) when the series is shorter than
  the slow span, Bollinger (0, 0, 0), Stochastic (50, 50) and ATR 0 when the close series
  is shorter than the period. No indicator raises.
\<close>

theorem indicator_fallbacks:
  assumes "int (length prices) < p"
  shows "calculate_sma prices p =
           Inr (if prices = [] then Some 0
                else if dropna prices = [] then None
                else Some (sum_list (dropna prices) / real (length (dropna prices)))) \<and>
         (\<forall>xs. prices = map Some xs \<longrightarrow>
            calculate_sma prices p =
              Inr (Some (if xs = [] then 0 else sum_list xs / real (length xs)))) \<and>
         calculate_volume_sma prices p = calculate_sma prices p \<and>
         calculate_z_score prices p = Inr (Some 0) \<and>
         calculate_rsi prices p = Inr (Some 50) \<and>
         calculate_macd prices fast p signal = Inr (Some 0, Some 0, Some 0) \<and>
         calculate_bollinger_bands prices p std_dev = Inr (Some 0, Some 0, Some 0) \<and>
         calculate_stochastic high_s low_s prices p = Inr (Some 50, Some 50) \<and>
         calculate_atr high_s low_s prices p = Inr (Some 0)"
proof (intro conjI allI impI)
  show "calculate_sma prices p =
      Inr (if prices = [] then Some 0
           else if dropna prices = [] then None
           else Some (sum_list (dropna prices) / real (length (dropna prices))))"
    using assms by (simp add: calculate_sma_def series_mean_def)
  show "calculate_sma prices p = Inr (Some (if xs = [] then 0 else sum_list xs / real (length xs)))"
    if "prices = map Some xs" for xs
    using assms that by (simp add: calculate_sma_def series_mean_def dropna_map_Some)
  show "calculate_volume_sma prices p = calculate_sma prices p"
    by (simp add: calculate_volume_sma_def calculate_sma_def)
  show "calculate_z_score prices p = Inr (Some 0)"
    using assms by (simp add: calculate_z_score_def)
  show "calculate_rsi prices p = Inr (Some 50)"
    using assms by (simp add: calculate_rsi_def)
  show "calculate_macd prices fast p signal = Inr (Some 0, Some 0, Some 0)"
    using assms by (simp add: calculate_macd_def)
  show "calculate_bollinger_bands prices p std_dev = Inr (Some 0, Some 0, Some 0)"
    using assms by (simp add: calculate_bollinger_bands_def)
  show "calculate_stochastic high_s low_s prices p = Inr (Some 50, Some 50)"
    using assms by (simp add: calculate_stochastic_def)
  show "calculate_atr high_s low_s prices p = Inr (Some 0)"
    using assms by (simp add: calculate_atr_def)
qed

theorem indicator_fallbacks_witness:
  "int (length [Some 1, Some 2, Some (6::real)]) < 5 \<and>
   calculate_sma [Some 1, Some 2, Some 6] 5 = Inr (Some 3) \<and>
   calculate_volume_sma [Some 1, Some 2, Some 6] 5 = Inr (Some 3) \<and>
   calculate_z_score [Some 1, Some 2, Some 6] 5 = Inr (Some 0) \<and>
   calculate_rsi [Some 1, Some 2, Some 6] 5 = Inr (Some 50) \<and>
   calculate_macd [Some 1, Some 2, Some 6] 12 5 9 = Inr (Some 0, Some 0, Some 0) \<and>
   calculate_bollinger_bands [Some 1, Some 2, Some 6] 5 2 = Inr (Some 0, Some 0, Some 0) \<and>
   calculate_stochastic [Some 2, Some 3, Some 7] [Some 0, Some 1, Some 5]
     [Some 1, Some 2, Some 6] 5 = Inr (Some 50, Some 50) \<and>
   calculate_atr [Some 2, Some 3, Some 7] [Some 0, Some 1, Some 5]
     [Some 1, Some 2, Some 6] 5 = Inr (Some 0)"
proof -
  have h: "int (length [Some 1, Some 2, Some (6::real)]) < 5"
    by simp
  show ?thesis
    using h indicator_fallbacks [OF h, of 12 9 2 "[Some 2, Some 3, Some 7]"
        "[Some 0, Some 1, Some 5]"]
    by simp
qed

section \<open>The indicators on a flat series\<close>

lemma those_replicate_Some: "those (replicate n (Some c)) = Some (replicate n c)"
  by (induction n) simp_all



lemma iloc_last_map_upt:
  "0 < n \<Longrightarrow> iloc_last (map f [0..<n]) = Inr (f (n - 1))"
  by (cases n) (simp_all add: iloc_last_def)

text \<open>The last entry of a rolling aggregate, for a window that fits.\<close>

lemma rolling_last:
  assumes "0 < w" and "w \<le> length xs"
  shows "\<exists>ys. rolling agg (int w) xs = Inr ys \<and>
           iloc_last ys = Inr (case those (take w (drop (length xs - w) xs)) of
                                 None \<Rightarrow> None | Some ws \<Rightarrow> agg ws)"
proof -
  have n: "0 < length xs"
    using assms by linarith
  then have "length xs - 1 + 1 - w = length xs - w"
    by simp
  then show ?thesis
    using assms n by (simp add: rolling_def iloc_last_map_upt)
qed

lemma window_mean_replicate: "0 < w \<Longrightarrow> window_mean (replicate w c) = Some c"
  by (simp add: window_mean_def sum_list_replicate)

lemma window_std_replicate: "2 \<le> w \<Longrightarrow> window_std (replicate w c) = Some 0"
  by (simp add: window_std_def sum_list_replicate Let_def)

lemma last_window_replicate:
  "w \<le> n \<Longrightarrow> take w (drop (n - w) (replicate n x)) = replicate w x"
  by (simp add: min_def)

lemma z_const:
  assumes "20 \<le> n"
  shows "calculate_z_score (replicate n (Some c)) 20 = Inr (Some 0)"
proof -
  have w: "take 20 (drop (n - 20) (replicate n (Some c))) = replicate 20 (Some c)"
    using assms by (rule last_window_replicate)
  obtain ms where ms: "rolling window_mean (int 20) (replicate n (Some c)) = Inr ms"
    using rolling_last [of 20 "replicate n (Some c)" window_mean] assms by auto
  obtain ss where ss: "rolling window_std (int 20) (replicate n (Some c)) = Inr ss"
    "iloc_last ss = Inr (Some 0)"
    using rolling_last [of 20 "replicate n (Some c)" window_std] assms
    by (auto simp: w those_replicate_Some window_std_replicate)
  show ?thesis
    using assms ms ss by (simp add: calculate_z_score_def ebind_def)
qed

lemma sma_const:
  assumes "0 < w" and "w \<le> n"
  shows "calculate_sma (replicate n (Some c)) (int w) = Inr (Some c)"
proof -
  have "take w (drop (n - w) (replicate n (Some c))) = replicate w (Some c)"
    using assms(2) by (rule last_window_replicate)
  then show ?thesis
    using rolling_last [of w "replicate n (Some c)" window_mean] assms
    by (auto simp add: calculate_sma_def ebind_def those_replicate_Some window_mean_replicate)
qed

lemma volume_sma_eq_sma: "calculate_volume_sma xs w = calculate_sma xs w"
  by (simp add: calculate_volume_sma_def calculate_sma_def)





text \<open>A series whose entries are one number \<open>c\<close> or NaN: every difference is 0 or NaN,
  so there is no gain and no loss, and the RSI is 100.\<close>

lemma diff_flat:
  assumes "\<forall>x \<in> set xs. x = None \<or> x = Some c"
  shows "\<forall>d \<in> set (diff xs). d = None \<or> d = Some 0"
proof
  fix d
  assume "d \<in> set (diff xs)"
  then consider "d = None" | a b where "(a, b) \<in> set (zip xs (tl xs))" "d = fsub b a"
    by (auto simp: diff_def split: if_splits)
  then show "d = None \<or> d = Some 0"
  proof cases
    case 1
    then show ?thesis
      by simp
  next
    case 2
    then have "a \<in> set xs" and "b \<in> set (tl xs)"
      by (auto dest: set_zip_leftD set_zip_rightD)
    then have "a \<in> set xs" and "b \<in> set xs"
      by (auto dest: list.set_sel(2) [rotated])
    with assms have "(a = None \<or> a = Some c) \<and> (b = None \<or> b = Some c)"
      by simp
    with 2(2) show ?thesis
      by auto
  qed
qed

lemma length_diff: "length (diff xs) = length xs"
  by (cases xs) (simp_all add: diff_def)

lemma where_else_zero_flat:
  assumes "\<forall>d \<in> set xs. d = None \<or> d = Some 0" and "\<not> cond 0"
  shows "where_else_zero cond xs = replicate (length xs) (Some 0)"
  using assms by (induction xs) (auto simp: where_else_zero_def)

lemma rsi_flat:
  assumes "\<forall>x \<in> set xs. x = None \<or> x = Some c" and "15 \<le> length xs"
  shows "calculate_rsi xs 14 = Inr (Some 100)"
proof -
  define n where "n = length xs"
  have d: "\<forall>d \<in> set (diff xs). d = None \<or> d = Some 0"
    using assms(1) by (rule diff_flat)
  have g: "where_else_zero (\<lambda>d. d > 0) (diff xs) = replicate n (Some 0)"
    using where_else_zero_flat [OF d, of "\<lambda>d. d > 0"] by (simp add: length_diff n_def)
  have l: "map (map_option uminus) (where_else_zero (\<lambda>d. d < 0) (diff xs))
      = replicate n (Some 0)"
    using where_else_zero_flat [OF d, of "\<lambda>d. d < 0"] by (simp add: length_diff n_def)
  have n: "14 \<le> n"
    using assms(2) by (simp add: n_def)
  have w: "take 14 (drop (n - 14) (replicate n (Some (0::real)))) = replicate 14 (Some 0)"
    using n by (rule last_window_replicate)
  obtain ls where ls: "rolling window_mean (int 14) (replicate n (Some 0)) = Inr ls"
    "iloc_last ls = Inr (Some 0)"
    using rolling_last [of 14 "replicate n (Some 0)" window_mean] n
    by (auto simp: w those_replicate_Some window_mean_replicate)
  show ?thesis
    using assms(2) ls unfolding calculate_rsi_def Let_def g l
    by (simp add: ebind_def)
qed

text \<open>The running average of such a series that starts with the number stays at it.\<close>

lemma ewm_loop_flat:
  assumes "\<forall>x \<in> set xs. x = None \<or> x = Some c"
  shows "ewm_loop f (Some c) w xs = replicate (length xs) (Some c)"
  using assms by (induction xs arbitrary: w) (auto simp: Let_def)

lemma ewm_mean_flat:
  assumes "1 \<le> span_n" and "\<forall>x \<in> set xs. x = None \<or> x = Some c"
  shows "ewm_mean span_n (Some c # xs) = Inr (replicate (Suc (length xs)) (Some c))"
  using assms by (simp add: ewm_mean_def Let_def ewm_loop_flat)

lemma align2_replicate:
  "align2 f (replicate n a) (replicate n b) = replicate n (f a b)"
proof -
  have "map (\<lambda>i. f (entry (replicate n a) i) (entry (replicate n b) i)) [0..<n]
      = map (\<lambda>i. f a b) [0..<n]"
    by (rule map_cong) (simp_all add: entry_def)
  then show ?thesis
    by (simp add: align2_def map_replicate_trivial)
qed

lemma macd_flat:
  assumes "\<forall>x \<in> set xs. x = None \<or> x = Some c" and "25 \<le> length xs"
  shows "calculate_macd (Some c # xs) 12 26 9 = Inr (Some 0, Some 0, Some 0)"
proof -
  define n where "n = length xs"
  have e: "ewm_mean 12 (Some c # xs) = Inr (replicate (Suc n) (Some c))"
    "ewm_mean 26 (Some c # xs) = Inr (replicate (Suc n) (Some c))"
    using assms(1) by (simp_all add: ewm_mean_flat n_def)
  have s: "ewm_mean 9 (replicate (Suc n) (Some 0)) = Inr (replicate (Suc n) (Some 0))"
    using ewm_mean_flat [of 9 "replicate n (Some 0)" 0] by simp
  have l: "iloc_last (replicate (Suc n) (Some (0::real))) = Inr (Some 0)"
    by (simp add: iloc_last_def)
  show ?thesis
    using assms(2) unfolding calculate_macd_def Let_def e ebind_def
    by (simp add: align2_replicate s l del: replicate.simps)
qed

lemma map_const_replicate:
  "\<forall>x \<in> set xs. f x = c \<Longrightarrow> map f xs = replicate (length xs) c"
  by (induction xs) simp_all

lemma round_half_even_of_int: "round_half_even (of_int j) = j"
  by (simp add: round_half_even_def)

lemma py_round_integer: "py_round (Some (of_int k)) n = Some (of_int k)"
proof -
  have "of_int k * 10 ^ n = (of_int (k * 10 ^ n) :: real)"
    by simp
  then have "round_half_even (of_int k * 10 ^ n) = k * 10 ^ n"
    by (simp only: round_half_even_of_int)
  then show ?thesis
    by (simp add: py_round_def)
qed


lemma py_round_numerals:
  "py_round (Some 0) k = Some 0" "py_round (Some 1) k = Some 1"
  "py_round (Some 70) k = Some 70" "py_round (Some 85) k = Some 85"
  "py_round (Some 100) k = Some 100"
  using py_round_integer [of 0 k] py_round_integer [of 1 k] py_round_integer [of 70 k]
    py_round_integer [of 85 k] py_round_integer [of 100 k]
  by simp_all

lemma generate_signal_flat:
  "generate_signal (Some 0) (Some 100) (Some 0) (Some 1)
     = Some \<lparr>direction = SELL, strength = STRONG, precision = Some 70\<rparr>"
  by (simp add: classifier_defs)



section \<open>The orchestrator on flat frames\<close>

text \<open>A flat frame of at least 50 rows: no price change, so the average loss is exactly
  0 and the RSI is 100, which alone determines a SELL.\<close>

lemma analyze_symbol_const:
  assumes "50 \<le> length data"
    and "\<forall>row \<in> set data. close row = Some c \<and> volume row = Some v"
  shows "analyze_symbol sname data current_price now =
    Some \<lparr>ar_symbol = sname,
          ar_current_price = current_price,
          ar_z_score = Some 0,
          ar_sma_50 = py_round (Some c) 4,
          ar_rsi = Some 100,
          ar_macd_line = Some 0,
          ar_macd_signal = Some 0,
          ar_macd_histogram = Some 0,
          ar_volume_sma = py_round (Some v) 2,
          ar_volume_ratio = Some 1,
          ar_signal = SELL,
          ar_strength = STRONG,
          ar_precision = Some 70,
          ar_timestamp = now,
          ar_valid = True\<rparr>"
proof -
  define n where "n = length data"
  have n: "50 \<le> n"
    using assms(1) by (simp add: n_def)
  then obtain k where k: "n = Suc k" and k25: "25 \<le> k"
    by (cases n) auto
  have p: "map close data = replicate n (Some c)"
    and vs: "map volume data = replicate n (Some v)"
    unfolding n_def using assms(2) by (simp_all add: map_const_replicate)
  have z: "calculate_z_score (replicate n (Some c)) 20 = Inr (Some 0)"
    using n by (simp add: z_const)
  have s: "calculate_sma (replicate n (Some c)) 50 = Inr (Some c)"
    using sma_const [of 50 n c] n by simp
  have r: "calculate_rsi (replicate n (Some c)) 14 = Inr (Some 100)"
    using n by (intro rsi_flat [where c = c]) simp_all
  have m: "calculate_macd (replicate n (Some c)) 12 26 9 = Inr (Some 0, Some 0, Some 0)"
    unfolding k replicate.simps using k25 by (intro macd_flat) simp_all
  have w: "calculate_volume_sma (replicate n (Some v)) 20 = Inr (Some v)"
    using sma_const [of 20 n v] n by (simp add: volume_sma_eq_sma)
  have lv: "last (replicate n (Some v)) = Some v"
    using n by simp
  have ratio: "(if flt_gt (Some v) (Some 0) then fdiv (Some v) (Some v) else Some 1) = Some 1"
    by simp
  have "\<not> length data < 50"
    using assms(1) by simp
  then show ?thesis
    unfolding analyze_symbol_def Let_def p vs z s r m w
    using n by (simp add: lv ratio generate_signal_flat py_round_numerals)
qed



text \<open>With at least 50 rows no indicator of \<open>analyze_symbol\<close> raises, whatever the
  entries are.\<close>

lemma rolling_Inr:
  "0 \<le> w \<Longrightarrow> \<exists>ys. rolling agg w xs = Inr ys \<and> length ys = length xs"
  by (simp add: rolling_def)

lemma iloc_last_Inr: "xs \<noteq> [] \<Longrightarrow> \<exists>y. iloc_last xs = Inr y"
  by (simp add: iloc_last_def)

lemma length_ewm_loop: "length (ewm_loop f a w xs) = length xs"
  by (induction xs arbitrary: a w) (simp_all add: Let_def split: option.splits)

lemma ewm_mean_Inr:
  "1 \<le> span_n \<Longrightarrow> \<exists>ys. ewm_mean span_n xs = Inr ys \<and> length ys = length xs"
  by (cases xs) (simp_all add: ewm_mean_def Let_def length_ewm_loop)

lemma length_align2: "length (align2 f xs ys) = max (length xs) (length ys)"
  by (simp add: align2_def)

lemma z_score_no_exception:
  assumes "0 \<le> w" and "xs \<noteq> []"
  shows "\<exists>z. calculate_z_score xs w = Inr z"
proof -
  obtain ms where ms: "rolling window_mean w xs = Inr ms" "length ms = length xs"
    using rolling_Inr [OF assms(1)] by blast
  obtain ss where ss: "rolling window_std w xs = Inr ss" "length ss = length xs"
    using rolling_Inr [OF assms(1)] by blast
  have "ms \<noteq> []" "ss \<noteq> []"
    using ms(2) ss(2) assms(2) by auto
  then show ?thesis
    using assms(2) ms(1) ss(1) by (simp add: calculate_z_score_def ebind_def iloc_last_def)
qed

lemma sma_no_exception:
  assumes "0 \<le> w" and "xs \<noteq> []"
  shows "\<exists>z. calculate_sma xs w = Inr z"
proof -
  obtain ms where ms: "rolling window_mean w xs = Inr ms" "length ms = length xs"
    using rolling_Inr [OF assms(1)] by blast
  have "ms \<noteq> []"
    using ms(2) assms(2) by auto
  then show ?thesis
    using ms(1) by (simp add: calculate_sma_def ebind_def iloc_last_def)
qed

lemma rsi_no_exception:
  assumes "0 \<le> w" and "xs \<noteq> []"
  shows "\<exists>z. calculate_rsi xs w = Inr z"
proof -
  have d: "diff xs \<noteq> []"
    using assms(2) by (simp add: diff_def)
  obtain gs where gs: "rolling window_mean w (where_else_zero (\<lambda>d. d > 0) (diff xs)) = Inr gs"
    "length gs = length (where_else_zero (\<lambda>d. d > 0) (diff xs))"
    using rolling_Inr [OF assms(1)] by blast
  obtain ls where ls: "rolling window_mean w
      (map (map_option uminus) (where_else_zero (\<lambda>d. d < 0) (diff xs))) = Inr ls"
    "length ls = length (map (map_option uminus) (where_else_zero (\<lambda>d. d < 0) (diff xs)))"
    using rolling_Inr [OF assms(1)] by blast
  have "gs \<noteq> []" "ls \<noteq> []"
    using gs(2) ls(2) d by (auto simp: where_else_zero_def)
  then show ?thesis
    using gs(1) ls(1) by (simp add: calculate_rsi_def Let_def ebind_def iloc_last_def)
qed

lemma macd_no_exception:
  assumes "1 \<le> fast" and "1 \<le> slow" and "1 \<le> signal" and "xs \<noteq> []"
  shows "\<exists>z. calculate_macd xs fast slow signal = Inr z"
proof -
  obtain ef where ef: "ewm_mean fast xs = Inr ef" "length ef = length xs"
    using ewm_mean_Inr [OF assms(1)] by blast
  obtain es where es: "ewm_mean slow xs = Inr es" "length es = length xs"
    using ewm_mean_Inr [OF assms(2)] by blast
  obtain sl where sl: "ewm_mean signal (align2 fsub ef es) = Inr sl"
    "length sl = length (align2 fsub ef es)"
    using ewm_mean_Inr [OF assms(3)] by blast
  have n: "0 < length xs"
    using assms(4) by simp
  have "length (align2 fsub ef es) = length xs"
    by (simp add: length_align2 ef(2) es(2))
  moreover from this have "length sl = length xs"
    by (simp only: sl(2))
  ultimately have "length (align2 fsub (align2 fsub ef es) sl) = length xs"
    by (simp add: length_align2)
  with n \<open>length (align2 fsub ef es) = length xs\<close> \<open>length sl = length xs\<close>
  have "align2 fsub ef es \<noteq> []" "sl \<noteq> []" "align2 fsub (align2 fsub ef es) sl \<noteq> []"
    by (metis length_greater_0_conv)+
  then show ?thesis
    using ef(1) es(1) sl(1)
    by (simp add: calculate_macd_def Let_def ebind_def iloc_last_def)
qed

lemma indicators_no_exception:
  assumes "50 \<le> length data"
  shows "\<exists>z_score sma_50 rsi macd volume_sma.
           calculate_z_score (map close data) 20 = Inr z_score \<and>
           calculate_sma (map close data) 50 = Inr sma_50 \<and>
           calculate_rsi (map close data) 14 = Inr rsi \<and>
           calculate_macd (map close data) 12 26 9 = Inr macd \<and>
           calculate_volume_sma (map volume data) 20 = Inr volume_sma"
proof -
  have ne: "map close data \<noteq> []" "map volume data \<noteq> []"
    using assms by (cases data; simp)+
  have "\<exists>z. calculate_z_score (map close data) 20 = Inr z"
    using z_score_no_exception [of 20 "map close data"] ne by simp
  moreover have "\<exists>z. calculate_sma (map close data) 50 = Inr z"
    using sma_no_exception [of 50 "map close data"] ne by simp
  moreover have "\<exists>z. calculate_rsi (map close data) 14 = Inr z"
    using rsi_no_exception [of 14 "map close data"] ne by simp
  moreover have "\<exists>z. calculate_macd (map close data) 12 26 9 = Inr z"
    using macd_no_exception [of 12 26 9 "map close data"] ne by simp
  moreover have "\<exists>z. calculate_volume_sma (map volume data) 20 = Inr z"
    using sma_no_exception [of 20 "map volume data"] ne by (simp add: volume_sma_eq_sma)
  ultimately show ?thesis
    by blast
qed

text \<open>
  Claim C3, as the code has it. For a 100-point series whose closes are all equal and
  whose volumes are all equal, the z-score is 0 and the MACD line, signal and histogram
  are 0, but the RSI is 100, not 50: the series is long enough for the RSI window and
  its average loss is exactly 0. The volume ratio is 1, and the classifier returns a
  signal: SELL, STRONG, precision 70.
\<close>

theorem flat_series_signal:
  assumes "length data = 100"
    and "\<forall>row \<in> set data. close row = Some c \<and> volume row = Some v"
  shows "calculate_z_score (map close data) 20 = Inr (Some 0) \<and>
         calculate_rsi (map close data) 14 = Inr (Some 100) \<and>
         calculate_macd (map close data) 12 26 9 = Inr (Some 0, Some 0, Some 0) \<and>
         map_option (\<lambda>r. (ar_volume_ratio r, ar_signal r, ar_strength r, ar_precision r))
           (analyze_symbol sname data current_price now)
           = Some (Some 1, SELL, STRONG, Some 70)"
proof -
  have p: "map close data = replicate 100 (Some c)"
    using map_const_replicate [of data close "Some c"] assms by simp
  have "50 \<le> length data"
    using assms(1) by simp
  note a = analyze_symbol_const [OF this assms(2)]
  have z: "calculate_z_score (replicate 100 (Some c)) 20 = Inr (Some 0)"
    by (rule z_const) simp
  have r: "calculate_rsi (replicate 100 (Some c)) 14 = Inr (Some 100)"
    by (rule rsi_flat [where c = c]) simp_all
  have "calculate_macd (Some c # replicate 99 (Some c)) 12 26 9 = Inr (Some 0, Some 0, Some 0)"
    by (rule macd_flat) simp_all
  moreover have "Some c # replicate 99 (Some c) = replicate 100 (Some c)"
    by (simp add: numeral_eq_Suc)
  ultimately have m: "calculate_macd (replicate 100 (Some c)) 12 26 9
      = Inr (Some 0, Some 0, Some 0)"
    by simp
  show ?thesis
    unfolding p a by (simp add: z r m)
qed

theorem flat_series_signal_witness:
  "(let data = replicate 100 \<lparr>timestamp = 0, open_price = Some 5, high = Some 5,
                 low = Some 5, close = Some 5, volume = Some 7, turnover = Some 35\<rparr>
    in length data = 100 \<and>
       calculate_z_score (map close data) 20 = Inr (Some 0) \<and>
       calculate_rsi (map close data) 14 = Inr (Some 100) \<and>
       calculate_macd (map close data) 12 26 9 = Inr (Some 0, Some 0, Some 0) \<and>
       map_option (\<lambda>r. (ar_volume_ratio r, ar_signal r, ar_strength r, ar_precision r))
         (analyze_symbol ''FLATUSDT'' data 5 0) = Some (Some 1, SELL, STRONG, Some 70))"
proof -
  define data where "data = replicate 100 \<lparr>timestamp = 0, open_price = Some 5,
    high = Some 5, low = Some 5, close = Some (5::real), volume = Some (7::real),
    turnover = Some 35\<rparr>"
  have l: "length data = 100"
    by (simp add: data_def)
  have r: "\<forall>row \<in> set data. close row = Some 5 \<and> volume row = Some 7"
    by (simp add: data_def)
  from flat_series_signal [OF l r, of "''FLATUSDT''" 5 0] l show ?thesis
    unfolding data_def [symmetric] Let_def by simp
qed

theorem flat_series_counterexample:
  "calculate_rsi (replicate 100 (Some 5)) 14 \<noteq> Inr (Some 50) \<and>
   generate_signal (Some 0) (Some 100) (Some 0) (Some 1) \<noteq> None \<and>
   analyze_symbol ''FLATUSDT''
     (replicate 100 \<lparr>timestamp = 0, open_price = Some 5, high = Some 5, low = Some 5,
        close = Some 5, volume = Some 7, turnover = Some 35\<rparr>) 5 0 \<noteq> None"
proof -
  have "calculate_rsi (replicate 100 (Some 5)) 14 = Inr (Some 100)"
    by (rule rsi_flat [where c = 5]) simp_all
  moreover have "analyze_symbol ''FLATUSDT''
     (replicate 100 \<lparr>timestamp = 0, open_price = Some 5, high = Some 5, low = Some 5,
        close = Some 5, volume = Some 7, turnover = Some 35\<rparr>) 5 0 \<noteq> None"
    by (subst analyze_symbol_const [where c = 5 and v = 7]) simp_all
  ultimately show ?thesis
    by (simp add: generate_signal_flat)
qed







end
